theory Spec2Isabelle
  imports Main "HOL-Library.AList"
begin

section \<open>JavaScript values, objects and the heap\<close>

text \<open>
  The binding \<^verbatim>\<open>ejdb.js\<close> is sloppy-mode JavaScript. Its functions inspect the
  dynamic type of their arguments, allocate fresh objects and arrays, and mutate objects
  their caller handed in. A value is therefore either a primitive or a reference into an
  explicit heap, so that two references to one object are seen as such.

  Numbers are the integers (the code only counts, and passes flags); \<open>NaN\<close> is not a
  value of the model and appears only as \<open>None\<close> in the numeric comparisons of
  \<open>isValidOID\<close>. A string is a list of code units below 256.
\<close>

datatype jsval =
    JUndefined
  | JNull
  | JBool bool
  | JNum int
  | JStr string
  | JRef nat

text \<open>
  What a \<^verbatim>\<open>throw\<close> carries: \<open>Error m\<close> is \<^verbatim>\<open>new Error(m)\<close>, \<open>TypeError m\<close> is
  the fault the language itself raises (reading a property of \<^verbatim>\<open>undefined\<close>, calling
  what is not a function), \<open>Raised v\<close> is whatever the native engine threw or reported.
\<close>

datatype error = Error string | TypeError string | Raised jsval

text \<open>
  A function object supplied by the caller is opaque: calling it either returns or
  throws, which \<open>KFunction\<close> records. An array keeps its elements apart from its named
  properties.
\<close>

datatype okind = KObject | KArray "jsval list" | KFunction "error option"

record obj =
  okind :: okind
  oprops :: "(string \<times> jsval) list"

type_synonym heap = "obj list"

definition empty_object :: obj where
  "empty_object = \<lparr>okind = KObject, oprops = []\<rparr>"

definition new_array :: "jsval list \<Rightarrow> obj" where
  "new_array xs = \<lparr>okind = KArray xs, oprops = []\<rparr>"

text \<open>
  An address is the index of its object; allocation appends. Every reference a running
  program holds is below \<open>length h\<close>; \<open>cell\<close> gives the empty object elsewhere.
\<close>

definition cell :: "heap \<Rightarrow> nat \<Rightarrow> obj" where
  "cell h a = (if a < length h then h ! a else empty_object)"

definition alloc :: "obj \<Rightarrow> heap \<Rightarrow> jsval \<times> heap" where
  "alloc ob h = (JRef (length h), h @ [ob])"

fun typeof :: "heap \<Rightarrow> jsval \<Rightarrow> string" where
  "typeof h JUndefined = ''undefined''"
| "typeof h JNull = ''object''"
| "typeof h (JBool b) = ''boolean''"
| "typeof h (JNum n) = ''number''"
| "typeof h (JStr s) = ''string''"
| "typeof h (JRef a) =
     (case okind (cell h a) of KFunction r \<Rightarrow> ''function'' | _ \<Rightarrow> ''object'')"

fun isArray :: "heap \<Rightarrow> jsval \<Rightarrow> bool" where
  "isArray h (JRef a) = (case okind (cell h a) of KArray xs \<Rightarrow> True | _ \<Rightarrow> False)"
| "isArray h v = False"

text \<open>\<^verbatim>\<open>!!v\<close>: the values that count as true in a condition.\<close>

fun truthy :: "jsval \<Rightarrow> bool" where
  "truthy JUndefined = False"
| "truthy JNull = False"
| "truthy (JBool b) = b"
| "truthy (JNum n) = (n \<noteq> 0)"
| "truthy (JStr s) = (s \<noteq> [])"
| "truthy (JRef a) = True"

text \<open>\<^verbatim>\<open>v == null\<close> holds of \<^verbatim>\<open>null\<close> and \<^verbatim>\<open>undefined\<close> only.\<close>

fun eq_null :: "jsval \<Rightarrow> bool" where
  "eq_null JUndefined = True"
| "eq_null JNull = True"
| "eq_null v = False"

text \<open>\<^verbatim>\<open>arguments[i]\<close>, \<^verbatim>\<open>undefined\<close> past the end.\<close>

definition arg :: "jsval list \<Rightarrow> nat \<Rightarrow> jsval" where
  "arg args i = (if i < length args then args ! i else JUndefined)"

section \<open>Properties and array elements\<close>

text \<open>
  \<^verbatim>\<open>v[name]\<close> for the names the binding uses (\<^verbatim>\<open>_id\<close>, \<^verbatim>\<open>$max\<close>, \<^verbatim>\<open>$onlycount\<close>),
  which no built-in prototype defines: the own property of an object, \<^verbatim>\<open>undefined\<close> on a
  primitive. Both reads in the source are of a value already known not to be \<^verbatim>\<open>null\<close>
  or \<^verbatim>\<open>undefined\<close> (\<^verbatim>\<open>so != null && ...\<close>, \<^verbatim>\<open>hints || {}\<close>).
\<close>

definition get_prop :: "heap \<Rightarrow> jsval \<Rightarrow> string \<Rightarrow> jsval" where
  "get_prop h v k =
     (case v of
        JRef a \<Rightarrow> (case map_of (oprops (cell h a)) k of Some x \<Rightarrow> x | None \<Rightarrow> JUndefined)
      | _ \<Rightarrow> JUndefined)"

text \<open>
  \<^verbatim>\<open>v[name] = x\<close> in sloppy mode: stored on an object (an array and a function are
  objects too), silently dropped on a primitive.
\<close>

definition set_prop :: "heap \<Rightarrow> jsval \<Rightarrow> string \<Rightarrow> jsval \<Rightarrow> heap" where
  "set_prop h v k x =
     (case v of
        JRef a \<Rightarrow> h[a := (cell h a)\<lparr>oprops := AList.update k x (oprops (cell h a))\<rparr>]
      | _ \<Rightarrow> h)"

text \<open>The elements of an array (\<^verbatim>\<open>jsarr.length\<close> is their number); none for anything else.\<close>

definition elems :: "heap \<Rightarrow> jsval \<Rightarrow> jsval list" where
  "elems h v =
     (case v of
        JRef a \<Rightarrow> (case okind (cell h a) of KArray xs \<Rightarrow> xs | _ \<Rightarrow> [])
      | _ \<Rightarrow> [])"

definition digit_char :: "nat \<Rightarrow> char" where
  "digit_char d = char_of (48 + d)"

function decimal :: "nat \<Rightarrow> string" where
  "decimal n = (if n < 10 then [digit_char n] else decimal (n div 10) @ [digit_char (n mod 10)])"
  by pat_completeness auto
termination
  by (relation "measure (\<lambda>n. n)") auto

declare decimal.simps [simp del]

text \<open>
  \<^verbatim>\<open>v[i]\<close> for a number \<open>i\<close>: an element of an array, the property named by the
  decimal digits of \<open>i\<close> on another object, a character of a string, and a TypeError on
  \<^verbatim>\<open>undefined\<close> and \<^verbatim>\<open>null\<close>.
\<close>

fun get_index :: "heap \<Rightarrow> jsval \<Rightarrow> nat \<Rightarrow> error + jsval" where
  "get_index h JUndefined i = Inl (TypeError ''Cannot read property of undefined'')"
| "get_index h JNull i = Inl (TypeError ''Cannot read property of null'')"
| "get_index h (JStr s) i = Inr (if i < length s then JStr [s ! i] else JUndefined)"
| "get_index h (JRef a) i =
     Inr (case okind (cell h a) of
            KArray xs \<Rightarrow> (if i < length xs then xs ! i else JUndefined)
          | _ \<Rightarrow> (case map_of (oprops (cell h a)) (decimal i) of
                    Some x \<Rightarrow> x | None \<Rightarrow> JUndefined))"
| "get_index h v i = Inr JUndefined"

section \<open>parseQueryArgs\<close>

text \<open>The array \<^verbatim>\<open>[cname, qobj, orarr, hints, cb]\<close> the function returns, slot by slot.\<close>

record qargs =
  qa_cname :: jsval
  qa_qobj :: jsval
  qa_orarr :: jsval
  qa_hints :: jsval
  qa_cb :: jsval

text \<open>\<^verbatim>\<open>(v || {})\<close> and \<^verbatim>\<open>(v || [])\<close>: the literal is allocated only when \<open>v\<close> is falsy.\<close>

definition or_else_new :: "jsval \<Rightarrow> obj \<Rightarrow> heap \<Rightarrow> jsval \<times> heap" where
  "or_else_new v ob h = (if truthy v then (v, h) else alloc ob h)"

definition cname_error :: error where
  "cname_error = Error ''Collection name 'cname' argument must be specified''"

definition parseQueryArgs :: "jsval list \<Rightarrow> heap \<Rightarrow> (error + qargs) \<times> heap" where
  "parseQueryArgs args h =
     (let cname = arg args 0 in
      if typeof h cname \<noteq> ''string'' then (Inl cname_error, h)
      else
        let next1 = arg args 1;
            cb1 = (if typeof h next1 = ''function'' then next1 else JUndefined);
            qobj = (if typeof h next1 = ''function'' then JUndefined else next1);
            next2 = arg args 2;
            (orarr, hints, cb) =
              (if next2 \<noteq> JUndefined then
                 let (orarr3, hints3, next3, i3) =
                       (if isArray h next2 then (next2, JUndefined, arg args 3, 4)
                        else if typeof h next2 = ''object'' then (JNull, next2, arg args 3, 4)
                        else (JUndefined, JUndefined, next2, 3));
                     (hints4, next4) =
                       (if \<not> truthy hints3 \<and> typeof h next3 = ''object''
                        then (next3, arg args i3) else (hints3, next3))
                 in (orarr3, hints4, if typeof h next4 = ''function'' then next4 else cb1)
               else (JUndefined, JUndefined, cb1));
            (qobj', h1) = or_else_new qobj empty_object h;
            (orarr', h2) = or_else_new orarr (new_array []) h1;
            (hints', h3) = or_else_new hints empty_object h2
        in (Inr \<lparr>qa_cname = cname, qa_qobj = qobj', qa_orarr = orarr', qa_hints = hints',
                 qa_cb = (if truthy cb then cb else JNull)\<rparr>, h3))"

subsection \<open>The documented call shapes\<close>

text \<open>
  The comment above \<open>parseQueryArgs\<close> lists five shapes, each with an optional callback
  at the end: \<^verbatim>\<open>(cname)\<close>, \<^verbatim>\<open>(cname, qobj)\<close>, \<^verbatim>\<open>(cname, qobj, hints)\<close>,
  \<^verbatim>\<open>(cname, qobj, qobjarr)\<close>, \<^verbatim>\<open>(cname, qobj, qobjarr, hints)\<close>.
\<close>

datatype qshape =
    Shape_c string
  | Shape_cq string jsval
  | Shape_cqh string jsval jsval
  | Shape_cqo string jsval jsval
  | Shape_cqoh string jsval jsval jsval

fun shape_args :: "qshape \<Rightarrow> jsval list" where
  "shape_args (Shape_c c) = [JStr c]"
| "shape_args (Shape_cq c q) = [JStr c, q]"
| "shape_args (Shape_cqh c q hn) = [JStr c, q, hn]"
| "shape_args (Shape_cqo c q orr) = [JStr c, q, orr]"
| "shape_args (Shape_cqoh c q orr hn) = [JStr c, q, orr, hn]"

definition call_args :: "qshape \<Rightarrow> jsval option \<Rightarrow> jsval list" where
  "call_args sh cbo = shape_args sh @ (case cbo of None \<Rightarrow> [] | Some f \<Rightarrow> [f])"

text \<open>
  The types the documentation gives the components: a query object is an object that is
  not a function, the hints are an object that is neither an array nor a function, the
  OR-branches are an array, the callback is a function.
\<close>

definition is_qobj :: "heap \<Rightarrow> jsval \<Rightarrow> bool" where
  "is_qobj h v = (typeof h v = ''object'' \<and> v \<noteq> JNull)"

definition is_hints :: "heap \<Rightarrow> jsval \<Rightarrow> bool" where
  "is_hints h v = (typeof h v = ''object'' \<and> v \<noteq> JNull \<and> \<not> isArray h v)"

fun shape_ok :: "heap \<Rightarrow> qshape \<Rightarrow> bool" where
  "shape_ok h (Shape_c c) = True"
| "shape_ok h (Shape_cq c q) = is_qobj h q"
| "shape_ok h (Shape_cqh c q hn) = (is_qobj h q \<and> is_hints h hn)"
| "shape_ok h (Shape_cqo c q orr) = (is_qobj h q \<and> isArray h orr)"
| "shape_ok h (Shape_cqoh c q orr hn) = (is_qobj h q \<and> isArray h orr \<and> is_hints h hn)"

fun cb_ok :: "heap \<Rightarrow> jsval option \<Rightarrow> bool" where
  "cb_ok h None = True"
| "cb_ok h (Some f) = (typeof h f = ''function'')"

text \<open>
  The canonical request of a call, as the claim words it: each supplied component in its
  slot, and for an omitted one a fresh \<^verbatim>\<open>{}\<close>, \<^verbatim>\<open>[]\<close>, \<^verbatim>\<open>{}\<close> or \<^verbatim>\<open>null\<close>.
\<close>

fun shape_cname :: "qshape \<Rightarrow> string" where
  "shape_cname (Shape_c c) = c"
| "shape_cname (Shape_cq c q) = c"
| "shape_cname (Shape_cqh c q hn) = c"
| "shape_cname (Shape_cqo c q orr) = c"
| "shape_cname (Shape_cqoh c q orr hn) = c"

fun shape_qobj :: "qshape \<Rightarrow> jsval option" where
  "shape_qobj (Shape_c c) = None"
| "shape_qobj (Shape_cq c q) = Some q"
| "shape_qobj (Shape_cqh c q hn) = Some q"
| "shape_qobj (Shape_cqo c q orr) = Some q"
| "shape_qobj (Shape_cqoh c q orr hn) = Some q"

fun shape_orarr :: "qshape \<Rightarrow> jsval option" where
  "shape_orarr (Shape_cqo c q orr) = Some orr"
| "shape_orarr (Shape_cqoh c q orr hn) = Some orr"
| "shape_orarr sh = None"

fun shape_hints :: "qshape \<Rightarrow> jsval option" where
  "shape_hints (Shape_cqh c q hn) = Some hn"
| "shape_hints (Shape_cqoh c q orr hn) = Some hn"
| "shape_hints sh = None"

fun supplied_or_fresh :: "jsval option \<Rightarrow> obj \<Rightarrow> heap \<Rightarrow> jsval \<times> heap" where
  "supplied_or_fresh (Some v) ob h = (v, h)"
| "supplied_or_fresh None ob h = (JRef (length h), h @ [ob])"

definition canonical :: "qshape \<Rightarrow> jsval option \<Rightarrow> heap \<Rightarrow> qargs \<times> heap" where
  "canonical sh cbo h =
     (let (q, h1) = supplied_or_fresh (shape_qobj sh) empty_object h;
          (orr, h2) = supplied_or_fresh (shape_orarr sh) (new_array []) h1;
          (hn, h3) = supplied_or_fresh (shape_hints sh) empty_object h2
      in (\<lparr>qa_cname = JStr (shape_cname sh), qa_qobj = q, qa_orarr = orr, qa_hints = hn,
            qa_cb = (case cbo of None \<Rightarrow> JNull | Some f \<Rightarrow> f)\<rparr>, h3))"

section \<open>The native engine, callbacks and effects\<close>

text \<open>
  \<^verbatim>\<open>this._impl\<close> (the native \<^verbatim>\<open>NodeEJDB\<close> object), the cursors it returns and the
  constants of \<^verbatim>\<open>ejdblib\<close> are native code outside \<^verbatim>\<open>ejdb.js\<close>: the binding is
  verified for every engine, which is a parameter. A native call may read and change the
  heap and the engine's own state \<open>'s\<close>, and returns a value or throws.

  The functions the binding itself creates and hands to the engine as callbacks are
  closures over its local variables. They never reach the caller, so they are not heap
  values but an argument kind of their own.
\<close>

datatype closure =
    Noop
  | SaveCb jsval jsval
  | FindOneCb jsval
  | UpdateCb jsval
  | CountCb jsval

datatype narg = Val jsval | Fn closure

datatype receiver = Impl | Cursor jsval

text \<open>
  What a run does, in order: a native call with its arguments and what it returned or
  threw, and a call of a function the caller supplied.
\<close>

datatype event =
    NativeCall receiver string "narg list" "error + jsval"
  | UserCall jsval "jsval list"

record 's world =
  w_heap :: heap
  w_engine :: 's
  w_trace :: "event list"

record 's ejdblib =
  JBQRYCOUNT :: jsval
  native :: "receiver \<Rightarrow> string \<Rightarrow> narg list \<Rightarrow> heap \<Rightarrow> 's \<Rightarrow> (error + jsval) \<times> heap \<times> 's"

type_synonym ('s, 'a) js = "'s world \<Rightarrow> (error + 'a) \<times> 's world"

definition ret :: "'a \<Rightarrow> ('s, 'a) js" where
  "ret x w = (Inr x, w)"

definition throw :: "error \<Rightarrow> ('s, 'a) js" where
  "throw e w = (Inl e, w)"

definition bind :: "('s, 'a) js \<Rightarrow> ('a \<Rightarrow> ('s, 'b) js) \<Rightarrow> ('s, 'b) js" where
  "bind m f w = (case m w of (Inl e, w') \<Rightarrow> (Inl e, w') | (Inr x, w') \<Rightarrow> f x w')"

text \<open>\<^verbatim>\<open>try { body } finally { fin }\<close>: \<open>fin\<close> always runs; its own throw wins.\<close>

definition try_finally :: "('s, 'a) js \<Rightarrow> ('s, 'b) js \<Rightarrow> ('s, 'a) js" where
  "try_finally body fin w =
     (case body w of (r, w1) \<Rightarrow>
        (case fin w1 of (Inl e, w2) \<Rightarrow> (Inl e, w2) | (Inr x, w2) \<Rightarrow> (r, w2)))"

definition lift_heap :: "(heap \<Rightarrow> (error + 'a) \<times> heap) \<Rightarrow> ('s, 'a) js" where
  "lift_heap f w = (case f (w_heap w) of (r, h') \<Rightarrow> (r, w\<lparr>w_heap := h'\<rparr>))"

definition call_native :: "'s ejdblib \<Rightarrow> receiver \<Rightarrow> string \<Rightarrow> narg list \<Rightarrow> ('s, jsval) js" where
  "call_native lib recv m nargs w =
     (case native lib recv m nargs (w_heap w) (w_engine w) of
        (r, h', s') \<Rightarrow>
          (r, \<lparr>w_heap = h', w_engine = s',
               w_trace = w_trace w @ [NativeCall recv m nargs r]\<rparr>))"

text \<open>\<^verbatim>\<open>cursor.m()\<close>: a native method when \<open>cursor\<close> is an object, a TypeError otherwise.\<close>

definition method_call :: "'s ejdblib \<Rightarrow> jsval \<Rightarrow> string \<Rightarrow> ('s, jsval) js" where
  "method_call lib recv m =
     (case recv of
        JRef a \<Rightarrow> call_native lib (Cursor recv) m []
      | JUndefined \<Rightarrow> throw (TypeError ''Cannot read property of undefined'')
      | JNull \<Rightarrow> throw (TypeError ''Cannot read property of null'')
      | _ \<Rightarrow> throw (TypeError ''is not a function''))"

text \<open>\<^verbatim>\<open>cb(args)\<close> for a value \<open>cb\<close> the caller supplied.\<close>

definition call_user :: "jsval \<Rightarrow> jsval list \<Rightarrow> ('s, jsval) js" where
  "call_user f args w =
     (case f of
        JRef a \<Rightarrow>
          (case okind (cell (w_heap w) a) of
             KFunction r \<Rightarrow>
               ((case r of None \<Rightarrow> Inr JUndefined | Some e \<Rightarrow> Inl e),
                w\<lparr>w_trace := w_trace w @ [UserCall f args]\<rparr>)
           | _ \<Rightarrow> (Inl (TypeError ''is not a function''), w))
      | _ \<Rightarrow> (Inl (TypeError ''is not a function''), w))"

section \<open>dropCollection and removeCollection\<close>

definition dropCollection :: "'s ejdblib \<Rightarrow> jsval list \<Rightarrow> ('s, jsval) js" where
  "dropCollection lib args =
     (let cname = arg args 0;
          cb = (if length args = 2 then arg args 1 else arg args 2);
          prune = (if length args = 2 then JBool False else arg args 1)
      in call_native lib Impl ''removeCollection''
           [Val cname, Val (JBool (truthy prune)), if \<not> truthy cb then Fn Noop else Val cb])"

text \<open>
  \<^verbatim>\<open>this.dropCollection.apply(this, arguments)\<close> passes the argument list on as it is;
  the body has no \<^verbatim>\<open>return\<close>.
\<close>

definition removeCollection :: "'s ejdblib \<Rightarrow> jsval list \<Rightarrow> ('s, jsval) js" where
  "removeCollection lib args = bind (dropCollection lib args) (\<lambda>r. ret JUndefined)"

section \<open>save\<close>

text \<open>
  The loop of \<open>postprocess\<close>, from the last index down: \<open>postprocess_from jsarr oids n\<close>
  runs the body for \<open>i = n - 1, ..., 0\<close>.
\<close>

fun postprocess_from :: "jsval \<Rightarrow> jsval \<Rightarrow> nat \<Rightarrow> heap \<Rightarrow> (error + jsval) \<times> heap" where
  "postprocess_from jsarr oids 0 h = (Inr JUndefined, h)"
| "postprocess_from jsarr oids (Suc i) h =
     (case get_index h jsarr i of
        Inl e \<Rightarrow> (Inl e, h)
      | Inr so \<Rightarrow>
          if eq_null so then postprocess_from jsarr oids i h
          else (case get_index h oids i of
                  Inl e \<Rightarrow> (Inl e, h)
                | Inr oid \<Rightarrow>
                    if get_prop h so ''_id'' \<noteq> oid
                    then postprocess_from jsarr oids i (set_prop h so ''_id'' oid)
                    else postprocess_from jsarr oids i h))"

definition postprocess :: "jsval \<Rightarrow> jsval \<Rightarrow> heap \<Rightarrow> (error + jsval) \<times> heap" where
  "postprocess jsarr oids h = postprocess_from jsarr oids (length (elems h jsarr)) h"

text \<open>The function \<open>save\<close> hands to the engine in callback mode.\<close>

definition save_callback :: "jsval \<Rightarrow> jsval \<Rightarrow> jsval list \<Rightarrow> ('s, jsval) js" where
  "save_callback jsarr cb cargs =
     (let err = arg cargs 0; oids = arg cargs 1 in
      if truthy err then bind (call_user cb [err]) (\<lambda>r. ret JUndefined)
      else bind (lift_heap (postprocess jsarr oids)) (\<lambda>u.
           bind (call_user cb [JNull, oids]) (\<lambda>r. ret JUndefined)))"

definition save :: "'s ejdblib \<Rightarrow> jsval list \<Rightarrow> ('s, jsval) js" where
  "save lib args w =
     (let cname = arg args 0; jsarr0 = arg args 1; opts0 = arg args 2; cb0 = arg args 3;
          h = w_heap w
      in if \<not> truthy jsarr0
         then (case alloc (new_array []) h of (r, h') \<Rightarrow> (Inr r, w\<lparr>w_heap := h'\<rparr>))
         else
           let (jsarr, h1) =
                 (if \<not> isArray h jsarr0 then alloc (new_array [jsarr0]) h else (jsarr0, h));
               cb = (if typeof h1 opts0 = ''function'' then opts0 else cb0);
               opts = (if typeof h1 opts0 = ''function'' then JNull else opts0);
               (opts', h2) = or_else_new opts empty_object h1
           in if eq_null cb
              then bind (call_native lib Impl ''save'' [Val cname, Val jsarr, Val opts'])
                     (\<lambda>oids. bind (lift_heap (postprocess jsarr oids)) (\<lambda>u. ret jsarr))
                     (w\<lparr>w_heap := h2\<rparr>)
              else call_native lib Impl ''save''
                     [Val cname, Val jsarr, Val opts', Fn (SaveCb jsarr cb)]
                     (w\<lparr>w_heap := h2\<rparr>))"

section \<open>find, findOne, update, count\<close>

text \<open>
  \<^verbatim>\<open>[qa[1]].concat(qa[2], qa[3])\<close>: the one-element array literal, then the result of
  \<open>concat\<close>, which spreads an argument that is an array and appends any other.
\<close>

definition concat_item :: "heap \<Rightarrow> jsval \<Rightarrow> jsval list" where
  "concat_item h v = (if isArray h v then elems h v else [v])"

definition query_array :: "qargs \<Rightarrow> heap \<Rightarrow> jsval \<times> heap" where
  "query_array qa h =
     (let (lit, h1) = alloc (new_array [qa_qobj qa]) h
      in alloc (new_array (elems h1 lit @ concat_item h1 (qa_orarr qa) @
                           concat_item h1 (qa_hints qa))) h1)"

definition find_js :: "'s ejdblib \<Rightarrow> jsval list \<Rightarrow> ('s, jsval) js" where
  "find_js lib args w =
     (case parseQueryArgs args (w_heap w) of
        (Inl e, h1) \<Rightarrow> (Inl e, w\<lparr>w_heap := h1\<rparr>)
      | (Inr qa, h1) \<Rightarrow>
          (let (qarr, h2) = query_array qa h1;
               flag = (if truthy (get_prop h2 (qa_hints qa) ''$onlycount'')
                       then JBQRYCOUNT lib else JNum 0)
           in call_native lib Impl ''query''
                [Val (qa_cname qa), Val qarr, Val flag, Val (qa_cb qa)] (w\<lparr>w_heap := h2\<rparr>)))"

text \<open>The function \<open>findOne\<close> hands to the engine in callback mode.\<close>

definition findOne_callback :: "'s ejdblib \<Rightarrow> jsval \<Rightarrow> jsval list \<Rightarrow> ('s, jsval) js" where
  "findOne_callback lib cb cargs =
     (let err = arg cargs 0; cursor = arg cargs 1 in
      if truthy err then bind (call_user cb [err]) (\<lambda>r. ret JUndefined)
      else bind (method_call lib cursor ''next'') (\<lambda>b.
           if truthy b
           then bind (try_finally
                        (bind (method_call lib cursor ''object'') (\<lambda>ob. call_user cb [JNull, ob]))
                        (method_call lib cursor ''close''))
                  (\<lambda>r. ret JUndefined)
           else bind (call_user cb [JNull, JNull]) (\<lambda>r. ret JUndefined)))"


text \<open>The functions \<open>update\<close> and \<open>count\<close> hand to the engine in callback mode.\<close>

definition update_callback :: "jsval \<Rightarrow> jsval list \<Rightarrow> ('s, jsval) js" where
  "update_callback cb cargs =
     (let err = arg cargs 0; count = arg cargs 2; log = arg cargs 3 in
      if truthy err then bind (call_user cb [err, JNull, log]) (\<lambda>r. ret JUndefined)
      else bind (call_user cb [JNull, count, log]) (\<lambda>r. ret JUndefined))"

definition count_callback :: "jsval \<Rightarrow> jsval list \<Rightarrow> ('s, jsval) js" where
  "count_callback cb cargs =
     (let err = arg cargs 0; count = arg cargs 2; log = arg cargs 3 in
      if truthy err then bind (call_user cb [err, JNull, log]) (\<lambda>r. ret JUndefined)
      else bind (call_user cb [JNull, count, log]) (\<lambda>r. ret JUndefined))"

definition update :: "'s ejdblib \<Rightarrow> jsval list \<Rightarrow> ('s, jsval) js" where
  "update lib args w =
     (case parseQueryArgs args (w_heap w) of
        (Inl e, h1) \<Rightarrow> (Inl e, w\<lparr>w_heap := h1\<rparr>)
      | (Inr qa, h1) \<Rightarrow>
          (let cb = qa_cb qa
           in if truthy cb
              then (let (qarr, h2) = query_array qa h1
                    in call_native lib Impl ''query''
                         [Val (qa_cname qa), Val qarr, Val (JBQRYCOUNT lib), Fn (UpdateCb cb)]
                         (w\<lparr>w_heap := h2\<rparr>))
              else (let (qarr, h2) = query_array qa h1
                    in call_native lib Impl ''query''
                         [Val (qa_cname qa), Val qarr, Val (JBQRYCOUNT lib), Val cb]
                         (w\<lparr>w_heap := h2\<rparr>))))"

definition count :: "'s ejdblib \<Rightarrow> jsval list \<Rightarrow> ('s, jsval) js" where
  "count lib args w =
     (case parseQueryArgs args (w_heap w) of
        (Inl e, h1) \<Rightarrow> (Inl e, w\<lparr>w_heap := h1\<rparr>)
      | (Inr qa, h1) \<Rightarrow>
          (let cb = qa_cb qa
           in if truthy cb
              then (let (qarr, h2) = query_array qa h1
                    in call_native lib Impl ''query''
                         [Val (qa_cname qa), Val qarr, Val (JBQRYCOUNT lib), Fn (CountCb cb)]
                         (w\<lparr>w_heap := h2\<rparr>))
              else (let (qarr, h2) = query_array qa h1
                    in call_native lib Impl ''query''
                         [Val (qa_cname qa), Val qarr, Val (JBQRYCOUNT lib), Val cb]
                         (w\<lparr>w_heap := h2\<rparr>))))"

text \<open>What happens when the engine calls a function the binding handed to it.\<close>

fun run_closure :: "'s ejdblib \<Rightarrow> closure \<Rightarrow> jsval list \<Rightarrow> ('s, jsval) js" where
  "run_closure lib Noop cargs = ret JUndefined"
| "run_closure lib (SaveCb jsarr cb) cargs = save_callback jsarr cb cargs"
| "run_closure lib (FindOneCb cb) cargs = findOne_callback lib cb cargs"
| "run_closure lib (UpdateCb cb) cargs = update_callback cb cargs"
| "run_closure lib (CountCb cb) cargs = count_callback cb cargs"

section \<open>An engine for the examples\<close>

text \<open>
  A small engine on which the theorems below are tried: \<open>save\<close> returns a fresh array
  with one identifier per element, \<open>query\<close> returns the number of stored records under
  the count-only flag and a fresh cursor object otherwise, a cursor has a record as long
  as the store is not empty, and every other call returns \<^verbatim>\<open>undefined\<close>. Its state is
  the number of stored records.
\<close>

definition ex_oid :: "nat \<Rightarrow> jsval" where
  "ex_oid i = JStr (replicate 23 (CHR ''0'') @ [digit_char i])"

definition ex_native ::
  "receiver \<Rightarrow> string \<Rightarrow> narg list \<Rightarrow> heap \<Rightarrow> nat \<Rightarrow> (error + jsval) \<times> heap \<times> nat" where
  "ex_native recv m nargs h s =
     (case recv of
        Impl \<Rightarrow>
          (if m = ''save'' then
             (case nargs of
                Val c # Val jsarr # rest \<Rightarrow>
                  (case alloc (new_array (map ex_oid [0..<length (elems h jsarr)])) h of
                     (r, h') \<Rightarrow> (Inr r, h', s + length (elems h jsarr)))
              | _ \<Rightarrow> (Inl (Raised (JStr ''bad arguments'')), h, s))
           else if m = ''query'' then
             (case nargs of
                [Val c, Val q, Val flag, cb] \<Rightarrow>
                  (if flag = JNum 1 then (Inr (JNum (int s)), h, s)
                   else (case alloc empty_object h of (r, h') \<Rightarrow> (Inr r, h', s)))
              | _ \<Rightarrow> (Inl (Raised (JStr ''bad arguments'')), h, s))
           else (Inr JUndefined, h, s))
      | Cursor c \<Rightarrow>
          (if m = ''next'' then (Inr (JBool (0 < s)), h, s - 1)
           else if m = ''object'' then (Inr (JStr ''record''), h, s)
           else (Inr JUndefined, h, s)))"

definition ex_lib :: "nat ejdblib" where
  "ex_lib = \<lparr>JBQRYCOUNT = JNum 1, native = ex_native\<rparr>"

text \<open>
  A heap with a document (address 0), an array holding that document twice (1), a hints
  object asking for the count only (2), a callback (3) and an array holding the document
  once (4).
\<close>

definition ex_heap :: heap where
  "ex_heap =
     [\<lparr>okind = KObject, oprops = [(''name'', JStr ''Anna'')]\<rparr>,
      \<lparr>okind = KArray [JRef 0, JRef 0], oprops = []\<rparr>,
      \<lparr>okind = KObject, oprops = [(''$onlycount'', JBool True)]\<rparr>,
      \<lparr>okind = KFunction None, oprops = []\<rparr>,
      \<lparr>okind = KArray [JRef 0], oprops = []\<rparr>]"

definition ex_world :: "nat world" where
  "ex_world = \<lparr>w_heap = ex_heap, w_engine = 1, w_trace = []\<rparr>"




section \<open>EJDB.isValidOID\<close>

text \<open>
  \<^verbatim>\<open>oid[i] >= 0x30\<close> compares a one-character string (or \<^verbatim>\<open>undefined\<close>, past the
  end) with a number, so the language converts the left side with ToNumber: a decimal
  digit becomes its value, white space becomes 0, every other character and
  \<^verbatim>\<open>undefined\<close> become \<open>NaN\<close> (\<open>None\<close>), and a comparison with \<open>NaN\<close> is false.
\<close>

definition is_whitespace :: "char \<Rightarrow> bool" where
  "is_whitespace c = ((of_char c :: nat) \<in> {9, 10, 11, 12, 13, 32, 160})"

definition char_ToNumber :: "char \<Rightarrow> int option" where
  "char_ToNumber c =
     (if c \<in> set ''0123456789'' then Some (int (of_char c) - 48)
      else if is_whitespace c then Some 0
      else None)"

definition oid_at :: "string \<Rightarrow> nat \<Rightarrow> int option" where
  "oid_at oid i = (if i < length oid then char_ToNumber (oid ! i) else None)"

fun num_ge :: "int option \<Rightarrow> int \<Rightarrow> bool" where
  "num_ge None k = False"
| "num_ge (Some n) k = (k \<le> n)"

fun num_le :: "int option \<Rightarrow> int \<Rightarrow> bool" where
  "num_le None k = False"
| "num_le (Some n) k = (n \<le> k)"

definition hex_cond :: "string \<Rightarrow> nat \<Rightarrow> bool" where
  "hex_cond oid i =
     ((num_ge (oid_at oid i) 0x30 \<and> num_le (oid_at oid i) 0x39) \<or>
      (num_ge (oid_at oid i) 0x61 \<and> num_le (oid_at oid i) 0x66))"

lemma hex_cond_in_range: "hex_cond oid i \<Longrightarrow> i < length oid"
  by (auto simp: hex_cond_def oid_at_def split: if_splits)

text \<open>The \<^verbatim>\<open>for\<close> loop with the empty body: it returns the first index where the test fails.\<close>

function isValidOID_loop :: "string \<Rightarrow> nat \<Rightarrow> nat" where
  "isValidOID_loop oid i = (if hex_cond oid i then isValidOID_loop oid (Suc i) else i)"
  by pat_completeness auto
termination
  by (relation "measure (\<lambda>(oid, i). length oid - i)") (auto dest: hex_cond_in_range)

declare isValidOID_loop.simps [simp del]

fun isValidOID :: "jsval \<Rightarrow> bool" where
  "isValidOID (JStr oid) =
     (if length oid \<noteq> 24 then False else isValidOID_loop oid 0 = 24)"
| "isValidOID v = False"

section \<open>Facts about the model\<close>

lemma is_qobj_D:
  "is_qobj h v \<Longrightarrow> truthy v \<and> typeof h v \<noteq> ''function'' \<and> v \<noteq> JUndefined"
  by (cases v) (auto simp: is_qobj_def split: okind.splits)

lemma is_hints_D:
  "is_hints h v \<Longrightarrow>
     truthy v \<and> typeof h v = ''object'' \<and> \<not> isArray h v \<and> v \<noteq> JUndefined"
  by (cases v) (auto simp: is_hints_def split: okind.splits)

lemma isArray_D: "isArray h v \<Longrightarrow> truthy v \<and> typeof h v = ''object'' \<and> v \<noteq> JUndefined"
  by (cases v) (auto split: okind.splits)

lemma is_fun_D:
  "typeof h v = ''function'' \<Longrightarrow> truthy v \<and> \<not> isArray h v \<and> v \<noteq> JUndefined"
  by (cases v) (auto split: okind.splits)

lemma ex_cell:
  "cell ex_heap 0 = \<lparr>okind = KObject, oprops = [(''name'', JStr ''Anna'')]\<rparr>"
  "cell ex_heap (Suc 0) = \<lparr>okind = KArray [JRef 0, JRef 0], oprops = []\<rparr>"
  "cell ex_heap 2 = \<lparr>okind = KObject, oprops = [(''$onlycount'', JBool True)]\<rparr>"
  "cell ex_heap 3 = \<lparr>okind = KFunction None, oprops = []\<rparr>"
  "cell ex_heap 4 = \<lparr>okind = KArray [JRef 0], oprops = []\<rparr>"
  "length ex_heap = 5"
  by (simp_all add: cell_def ex_heap_def)

lemma arg_Cons_simps:
  "arg (x # xs) 0 = x"
  "arg (x # xs) (Suc n) = arg xs n"
  by (simp_all add: arg_def)

lemma arg_Cons_numeral:
  "arg (x # xs) (numeral k) = arg xs (pred_numeral k)"
  by (simp add: arg_def numeral_eq_Suc)










lemma get_prop_append:
  assumes "\<forall>ob \<in> set xs. oprops ob = []"
  shows "get_prop (h @ xs) v k = get_prop h v k"
proof (cases v)
  case (JRef a)
  show ?thesis
  proof (cases "a < length h")
    case True
    then show ?thesis using JRef by (simp add: get_prop_def cell_def nth_append)
  next
    case False
    show ?thesis
    proof (cases "a < length (h @ xs)")
      case True
      with False have "(h @ xs) ! a \<in> set xs"
        by (simp add: nth_append)
      with assms have "oprops ((h @ xs) ! a) = []" by blast
      with True False JRef show ?thesis
        by (simp add: get_prop_def cell_def empty_object_def)
    next
      case F2: False
      with False JRef show ?thesis by (simp add: get_prop_def cell_def)
    qed
  qed
qed (simp_all add: get_prop_def)


lemma call_user_heap: "w_heap (snd (call_user cb args w)) = w_heap w"
  by (cases cb) (auto simp: call_user_def split: okind.splits)

lemma call_native_run:
  obtains r h1 s1 where
    "native lib recv m nargs (w_heap w) (w_engine w) = (r, h1, s1)"
    "call_native lib recv m nargs w =
       (r, \<lparr>w_heap = h1, w_engine = s1, w_trace = w_trace w @ [NativeCall recv m nargs r]\<rparr>)"
proof -
  obtain r h1 s1 where "native lib recv m nargs (w_heap w) (w_engine w) = (r, h1, s1)"
    by (metis prod_cases3)
  then show ?thesis
    using that by (simp add: call_native_def)
qed

lemma parse_documented_shape:
  assumes "shape_ok h sh" and "cb_ok h cbo"
  shows "parseQueryArgs (call_args sh cbo) h =
           (Inr (fst (canonical sh cbo h)), snd (canonical sh cbo h))"
proof (cases cbo)
  case None
  show ?thesis
    using assms None
    by (cases sh)
       (auto simp: parseQueryArgs_def call_args_def canonical_def arg_def or_else_new_def
          alloc_def Let_def dest!: is_qobj_D is_hints_D isArray_D)
next
  case (Some f)
  then have f: "typeof h f = ''function''"
    using assms by simp
  show ?thesis
    using assms Some is_fun_D [OF f] f
    by (cases sh)
       (auto simp: parseQueryArgs_def call_args_def canonical_def arg_def or_else_new_def
          alloc_def Let_def dest!: is_qobj_D is_hints_D isArray_D)
qed

lemma canonical_appends:
  "\<exists>xs. snd (canonical sh cbo h) = h @ xs \<and> (\<forall>ob \<in> set xs. oprops ob = [])"
  by (cases sh) (simp_all add: canonical_def empty_object_def new_array_def)

lemma query_array_appends:
  "\<exists>xs. snd (query_array qa h) = h @ xs \<and> (\<forall>ob \<in> set xs. oprops ob = [])"
  by (simp add: query_array_def alloc_def Let_def new_array_def)

lemma canonical_hints:
  "qa_hints (fst (canonical sh cbo h)) =
     (case shape_hints sh of
        Some hn \<Rightarrow> hn
      | None \<Rightarrow> JRef (length (snd (canonical sh cbo h)) - 1))"
  by (cases sh) (simp_all add: canonical_def)

lemma canonical_fields:
  "qa_cname (fst (canonical sh cbo h)) = JStr (shape_cname sh)"
  "qa_cb (fst (canonical sh cbo h)) = (case cbo of None \<Rightarrow> JNull | Some f \<Rightarrow> f)"
  by (simp_all add: canonical_def split: prod.splits)

lemma typeof_append_array: "typeof (h @ [new_array xs]) v = typeof h v"
  by (cases v) (simp_all add: cell_def new_array_def empty_object_def nth_append)





lemmas arg_simps = arg_Cons_simps arg_Cons_numeral


section \<open>Claim C1: the canonical request of a documented call\<close>

text \<open>
  Claim C1. For every argument list of one of the documented call shapes
  \<^verbatim>\<open>(cname[,cb])\<close>, \<^verbatim>\<open>(cname,qobj[,cb])\<close>, \<^verbatim>\<open>(cname,qobj,hints[,cb])\<close>,
  \<^verbatim>\<open>(cname,qobj,orarr[,cb])\<close>, \<^verbatim>\<open>(cname,qobj,orarr,hints[,cb])\<close>, with components of the
  documented types, \<open>parseQueryArgs\<close> returns \<^verbatim>\<open>[cname, qobj, orarr, hints, cb]\<close> with each
  supplied component in its slot, and a fresh \<^verbatim>\<open>{}\<close> for an omitted \<open>qobj\<close>, a fresh
  \<^verbatim>\<open>[]\<close> for an omitted \<open>orarr\<close>, a fresh \<^verbatim>\<open>{}\<close> for omitted \<open>hints\<close> and \<^verbatim>\<open>null\<close> for
  an omitted callback; it changes no existing object.
\<close>

theorem parseQueryArgs_canonical:
  assumes "shape_ok h sh" and "cb_ok h cbo"
  shows "parseQueryArgs (call_args sh cbo) h =
           (Inr (fst (canonical sh cbo h)), snd (canonical sh cbo h))"
  using assms by (rule parse_documented_shape)

theorem parseQueryArgs_canonical_witness:
  "shape_ok ex_heap (Shape_cqh ''users'' (JRef 0) (JRef 2)) \<and> cb_ok ex_heap (Some (JRef 3)) \<and>
   parseQueryArgs [JStr ''users'', JRef 0, JRef 2, JRef 3] ex_heap =
     (Inr \<lparr>qa_cname = JStr ''users'', qa_qobj = JRef 0, qa_orarr = JRef 5, qa_hints = JRef 2,
           qa_cb = JRef 3\<rparr>, ex_heap @ [new_array []])"
proof -
  have a: "shape_ok ex_heap (Shape_cqh ''users'' (JRef 0) (JRef 2))"
    by (simp add: is_qobj_def is_hints_def ex_cell)
  have b: "cb_ok ex_heap (Some (JRef 3))"
    by (simp add: ex_cell)
  show ?thesis
    using a b parseQueryArgs_canonical [OF a b]
    by (simp add: call_args_def canonical_def ex_cell)
qed

section \<open>Claim C2: isValidOID on a well-formed identifier\<close>

text \<open>What the documentation of \<open>isValidOID\<close> asks for: 24 lowercase hexadecimal digits.\<close>

definition is_hex_oid :: "jsval \<Rightarrow> bool" where
  "is_hex_oid v =
     (case v of JStr s \<Rightarrow> length s = 24 \<and> list_all (\<lambda>c. c \<in> set ''0123456789abcdef'') s
      | _ \<Rightarrow> False)"

lemma char_ToNumber_small: "char_ToNumber c = Some n \<Longrightarrow> n < 48"
  by (auto simp: char_ToNumber_def split: if_splits)

lemma hex_cond_never: "\<not> hex_cond oid i"
  by (cases "oid_at oid i")
     (auto simp: hex_cond_def oid_at_def split: if_splits dest!: char_ToNumber_small)

lemma isValidOID_loop_stays: "isValidOID_loop oid i = i"
  by (simp add: isValidOID_loop.simps [of oid i] hex_cond_never)

lemma isValidOID_never: "isValidOID v = False"
  by (cases v) (simp_all add: isValidOID_loop_stays)

text \<open>
  Claim C2 (code defect). \<open>isValidOID\<close> is documented to accept exactly the strings of
  24 lowercase hexadecimal digits. On the well-formed identifier
  \<^verbatim>\<open>"0123456789abcdef01234567"\<close> it answers false: each character is compared as a
  number with the character codes \<^verbatim>\<open>0x30..0x39\<close> and \<^verbatim>\<open>0x61..0x66\<close>, a test no
  single character passes, so the loop stops at index 0.
\<close>

theorem isValidOID_rejects_hex_oid:
  "is_hex_oid (JStr ''0123456789abcdef01234567'') \<and>
   isValidOID (JStr ''0123456789abcdef01234567'') = False"
  by (simp add: is_hex_oid_def isValidOID_loop_stays)

section \<open>Claim C3: what the synchronous save returns\<close>

text \<open>
  Claim C3 (code defect). The documentation of \<open>save\<close> promises the array of OIDs of the
  saved objects in synchronous mode. Saving the array at address 4, which holds the one
  document at address 0, the engine produces the OID array at address 6, and \<open>save\<close>
  returns address 4: its own argument, the array of documents.
\<close>

theorem save_sync_returns_documents:
  "fst (save ex_lib [JStr ''users'', JRef 4] ex_world) = Inr (JRef 4) \<and>
   elems (w_heap (snd (save ex_lib [JStr ''users'', JRef 4] ex_world))) (JRef 4) = [JRef 0] \<and>
   elems (w_heap (snd (save ex_lib [JStr ''users'', JRef 4] ex_world))) (JRef 6) = [ex_oid 0]"
  by code_simp

section \<open>Claim C4: identifiers stamped on the saved documents\<close>











section \<open>Claim C5: find and the count-only hint\<close>

text \<open>
  Modelled from the spec: the native \<^verbatim>\<open>query\<close> of the engine is not part of
  \<^verbatim>\<open>ejdb.js\<close>. Section 6 of the specification gives it as
  \<^verbatim>\<open>query(handle, collection, [matchDoc, ...orBranches, hintsDoc], flags{countOnly})
  -> Cursor | count\<close>, and section 4.3 says that \<^verbatim>\<open>$onlycount\<close> returns only the matched
  count: called without a callback, the engine returns a number when the count-only flag
  \<^verbatim>\<open>JBQRYCOUNT\<close> is passed and a cursor object when the flags are 0, and the count-only
  flag is not 0.
\<close>

definition query_contract :: "'s ejdblib \<Rightarrow> bool" where
  "query_contract lib =
     (JBQRYCOUNT lib \<noteq> JNum 0 \<and>
      (\<forall>c q flag h s v h' s'.
         native lib Impl ''query'' [Val c, Val q, Val flag, Val JNull] h s = (Inr v, h', s') \<longrightarrow>
           (flag = JBQRYCOUNT lib \<longrightarrow> (\<exists>n. v = JNum n)) \<and>
           (flag = JNum 0 \<longrightarrow> (\<exists>a. v = JRef a) \<and> typeof h' v = ''object'')))"

text \<open>The hints of a documented call have a truthy \<^verbatim>\<open>$onlycount\<close> property.\<close>

definition wants_count :: "heap \<Rightarrow> qshape \<Rightarrow> bool" where
  "wants_count h sh =
     (case shape_hints sh of
        Some hn \<Rightarrow> truthy (get_prop h hn ''$onlycount'')
      | None \<Rightarrow> False)"

lemma fresh_hints_no_count:
  "shape_hints sh = None \<Longrightarrow>
     get_prop (snd (canonical sh cbo h)) (qa_hints (fst (canonical sh cbo h))) k = JUndefined"
  by (cases sh) (simp_all add: canonical_def get_prop_def cell_def empty_object_def nth_append)

lemma find_js_documented:
  assumes ok: "shape_ok (w_heap w) sh"
      and qarr: "query_array (fst (canonical sh None (w_heap w)))
                   (snd (canonical sh None (w_heap w))) = (qarr, h2)"
  shows "find_js lib (call_args sh None) w =
           call_native lib Impl ''query''
             [Val (JStr (shape_cname sh)), Val qarr,
              Val (if wants_count (w_heap w) sh then JBQRYCOUNT lib else JNum 0), Val JNull]
             (w\<lparr>w_heap := h2\<rparr>)"
proof -
  let ?qa = "fst (canonical sh None (w_heap w))"
  let ?h1 = "snd (canonical sh None (w_heap w))"
  have p: "parseQueryArgs (call_args sh None) (w_heap w) = (Inr ?qa, ?h1)"
    using ok by (simp add: parse_documented_shape)
  obtain xs where xs: "?h1 = w_heap w @ xs" "\<forall>ob \<in> set xs. oprops ob = []"
    using canonical_appends by blast
  obtain ys where ys: "h2 = ?h1 @ ys" "\<forall>ob \<in> set ys. oprops ob = []"
    using query_array_appends [of ?qa ?h1] qarr by auto
  have g: "truthy (get_prop h2 (qa_hints ?qa) ''$onlycount'') = wants_count (w_heap w) sh"
  proof (cases "shape_hints sh")
    case None
    then show ?thesis
      using fresh_hints_no_count [OF None, of None "w_heap w" "''$onlycount''"] ys
      by (simp add: wants_count_def get_prop_append)
  next
    case (Some hn)
    have "get_prop (w_heap w @ (xs @ ys)) hn ''$onlycount'' =
          get_prop (w_heap w) hn ''$onlycount''"
      using xs(2) ys(2) by (intro get_prop_append) auto
    then show ?thesis
      using Some xs ys by (simp add: wants_count_def canonical_hints)
  qed
  show ?thesis
    using p qarr g by (simp add: find_js_def canonical_fields)
qed

text \<open>
  Claim C5. For every synchronous \<open>find\<close> call of a documented shape: if the hints
  object has a truthy \<^verbatim>\<open>$onlycount\<close> property, \<open>find\<close> passes the count-only flag
  \<^verbatim>\<open>JBQRYCOUNT\<close> to the engine's query, and otherwise the flag 0; it returns what the
  engine's query returns, which by the engine's contract is the matched count as a number
  in the first case and a cursor object in the second.
\<close>

theorem find_onlycount:
  assumes "shape_ok (w_heap w) sh"
      and "query_array (fst (canonical sh None (w_heap w))) (snd (canonical sh None (w_heap w)))
             = (qarr, h2)"
  shows "find_js lib (call_args sh None) w =
           call_native lib Impl ''query''
             [Val (JStr (shape_cname sh)), Val qarr,
              Val (if wants_count (w_heap w) sh then JBQRYCOUNT lib else JNum 0), Val JNull]
             (w\<lparr>w_heap := h2\<rparr>) \<and>
         (query_contract lib \<longrightarrow>
            (\<forall>v w'. find_js lib (call_args sh None) w = (Inr v, w') \<longrightarrow>
               (if wants_count (w_heap w) sh then \<exists>n. v = JNum n
                else (\<exists>a. v = JRef a) \<and> typeof (w_heap w') v = ''object'')))"
proof (intro conjI impI allI)
  show eq: "find_js lib (call_args sh None) w =
           call_native lib Impl ''query''
             [Val (JStr (shape_cname sh)), Val qarr,
              Val (if wants_count (w_heap w) sh then JBQRYCOUNT lib else JNum 0), Val JNull]
             (w\<lparr>w_heap := h2\<rparr>)"
    using assms by (rule find_js_documented)
  fix v w'
  assume c: "query_contract lib" and r: "find_js lib (call_args sh None) w = (Inr v, w')"
  let ?flag = "if wants_count (w_heap w) sh then JBQRYCOUNT lib else JNum 0"
  from r eq obtain s' where n:
    "native lib Impl ''query'' [Val (JStr (shape_cname sh)), Val qarr, Val ?flag, Val JNull]
       h2 (w_engine w) = (Inr v, w_heap w', s')"
    by (auto simp: call_native_def split: prod.splits)
  from c n have "(?flag = JBQRYCOUNT lib \<longrightarrow> (\<exists>n. v = JNum n)) \<and>
           (?flag = JNum 0 \<longrightarrow> (\<exists>a. v = JRef a) \<and> typeof (w_heap w') v = ''object'')"
    unfolding query_contract_def by blast
  moreover have "JBQRYCOUNT lib \<noteq> JNum 0" using c by (simp add: query_contract_def)
  ultimately show "if wants_count (w_heap w) sh then \<exists>n. v = JNum n
                else (\<exists>a. v = JRef a) \<and> typeof (w_heap w') v = ''object''"
    by (auto split: if_splits)
qed

lemma ex_query_contract: "query_contract ex_lib"
  by (auto simp: query_contract_def ex_lib_def ex_native_def alloc_def cell_def empty_object_def)

theorem find_onlycount_witness:
  "shape_ok (w_heap ex_world) (Shape_cqh ''users'' (JRef 0) (JRef 2)) \<and>
   query_array (fst (canonical (Shape_cqh ''users'' (JRef 0) (JRef 2)) None (w_heap ex_world)))
     (snd (canonical (Shape_cqh ''users'' (JRef 0) (JRef 2)) None (w_heap ex_world))) =
     (JRef 7, ex_heap @ [new_array [], new_array [JRef 0], new_array [JRef 0, JRef 2]]) \<and>
   query_contract ex_lib \<and>
   wants_count (w_heap ex_world) (Shape_cqh ''users'' (JRef 0) (JRef 2)) \<and>
   find_js ex_lib [JStr ''users'', JRef 0, JRef 2] ex_world =
     (Inr (JNum 1),
      \<lparr>w_heap = ex_heap @ [new_array [], new_array [JRef 0], new_array [JRef 0, JRef 2]],
       w_engine = 1,
       w_trace = [NativeCall Impl ''query''
                    [Val (JStr ''users''), Val (JRef 7), Val (JNum 1), Val JNull]
                    (Inr (JNum 1))]\<rparr>)"
proof -
  let ?sh = "Shape_cqh ''users'' (JRef 0) (JRef 2)"
  have a: "shape_ok (w_heap ex_world) ?sh" by code_simp
  have b: "query_array (fst (canonical ?sh None (w_heap ex_world)))
     (snd (canonical ?sh None (w_heap ex_world))) =
     (JRef 7, ex_heap @ [new_array [], new_array [JRef 0], new_array [JRef 0, JRef 2]])"
    by code_simp
  have c: "query_contract ex_lib" by (rule ex_query_contract)
  have d: "wants_count (w_heap ex_world) ?sh" by code_simp
  have e: "call_native ex_lib Impl ''query''
             [Val (JStr ''users''), Val (JRef 7), Val (JNum 1), Val JNull]
             (ex_world\<lparr>w_heap := ex_heap @
                [new_array [], new_array [JRef 0], new_array [JRef 0, JRef 2]]\<rparr>) =
     (Inr (JNum 1),
      \<lparr>w_heap = ex_heap @ [new_array [], new_array [JRef 0], new_array [JRef 0, JRef 2]],
       w_engine = 1,
       w_trace = [NativeCall Impl ''query''
                    [Val (JStr ''users''), Val (JRef 7), Val (JNum 1), Val JNull]
                    (Inr (JNum 1))]\<rparr>)"
    by code_simp
  from find_onlycount [OF a b, of ex_lib] d e
  show ?thesis using a b c d by (simp add: call_args_def ex_lib_def)
qed

section \<open>Claim C6: how a failure reaches the caller\<close>






























section \<open>Claim C7: dropCollection forwards a boolean prune flag\<close>

text \<open>
  Claim C7. A call \<^verbatim>\<open>dropCollection(cname, cb)\<close> with exactly two arguments, the second
  being the callback, calls the engine's \<^verbatim>\<open>removeCollection\<close> with \<open>prune\<close> equal to
  \<^verbatim>\<open>false\<close> and that callback; and in every call of \<open>dropCollection\<close> the second argument
  forwarded to the engine is a boolean.
\<close>

theorem dropCollection_prune:
  "(typeof (w_heap w) f = ''function'' \<longrightarrow>
      dropCollection lib [cname, f] w =
        call_native lib Impl ''removeCollection'' [Val cname, Val (JBool False), Val f] w) \<and>
   (\<exists>b k. dropCollection lib args w =
        call_native lib Impl ''removeCollection'' [Val (arg args 0), Val (JBool b), k] w)"
proof (intro conjI impI)
  assume "typeof (w_heap w) f = ''function''"
  then have "truthy f"
    by (simp add: is_fun_D)
  then show "dropCollection lib [cname, f] w =
        call_native lib Impl ''removeCollection'' [Val cname, Val (JBool False), Val f] w"
    by (simp add: dropCollection_def arg_def)
next
  show "\<exists>b k. dropCollection lib args w =
        call_native lib Impl ''removeCollection'' [Val (arg args 0), Val (JBool b), k] w"
    unfolding dropCollection_def Let_def by blast
qed

theorem dropCollection_prune_witness:
  "typeof (w_heap ex_world) (JRef 3) = ''function'' \<and>
   dropCollection ex_lib [JStr ''users'', JRef 3] ex_world =
     (Inr JUndefined,
      ex_world\<lparr>w_trace := [NativeCall Impl ''removeCollection''
                             [Val (JStr ''users''), Val (JBool False), Val (JRef 3)]
                             (Inr JUndefined)]\<rparr>)"
proof -
  have t: "typeof (w_heap ex_world) (JRef 3) = ''function''"
    by (simp add: ex_world_def ex_cell)
  from dropCollection_prune [of ex_world "JRef 3" ex_lib "JStr ''users''" "[]"] t
  have "dropCollection ex_lib [JStr ''users'', JRef 3] ex_world =
        call_native ex_lib Impl ''removeCollection''
          [Val (JStr ''users''), Val (JBool False), Val (JRef 3)] ex_world"
    by blast
  then show ?thesis
    using t by (simp add: call_native_def ex_lib_def ex_native_def ex_world_def)
qed

section \<open>Claim C8: removeCollection delegates to dropCollection\<close>

text \<open>
  For every engine: \<open>removeCollection\<close> is \<open>dropCollection\<close> on the same arguments, with
  the value the engine call returned replaced by \<^verbatim>\<open>undefined\<close>. So the two leave the
  same world (the same engine call with the same normalised \<open>prune\<close> and callback, the
  same engine state and heap) and throw the same exception; only the value returned to
  the caller is lost.
\<close>

lemma removeCollection_drops_result:
  "removeCollection lib args w =
     (case dropCollection lib args w of
        (Inl e, w') \<Rightarrow> (Inl e, w')
      | (Inr v, w') \<Rightarrow> (Inr JUndefined, w'))"
  by (simp add: removeCollection_def bind_def ret_def split: prod.splits sum.splits)

lemma removeCollection_delegates:
  "snd (removeCollection lib args w) = snd (dropCollection lib args w) \<and>
   (fst (dropCollection lib args w) = Inl e \<longrightarrow>
      fst (removeCollection lib args w) = Inl e) \<and>
   (fst (dropCollection lib args w) = Inr v \<longrightarrow>
      fst (removeCollection lib args w) = Inr JUndefined)"
  unfolding removeCollection_drops_result
  by (cases "dropCollection lib args w"; cases "fst (dropCollection lib args w)") auto


section \<open>Claim C9: what findOne changes, and when it closes the cursor\<close>


text \<open>A computation that leaves the first \<open>n\<close> cells of the heap as they are.\<close>

definition keeps_heap :: "nat \<Rightarrow> ('s, 'a) js \<Rightarrow> bool" where
  "keeps_heap n m =
     (\<forall>w. n \<le> length (w_heap w) \<longrightarrow> take n (w_heap (snd (m w))) = take n (w_heap w))"



lemma keeps_ret [simp]: "keeps_heap n (ret x)"
  by (simp add: keeps_heap_def ret_def)

lemma keeps_throw [simp]: "keeps_heap n (throw e)"
  by (simp add: keeps_heap_def throw_def)





lemma keeps_call_user [simp]: "keeps_heap n (call_user cb args)"
  by (simp add: keeps_heap_def call_user_heap)












text \<open>
  In callback mode with no record, the completion function calls the callback with
  \<^verbatim>\<open>(null, null)\<close> and leaves the cursor open, where the synchronous branch closes it:
  on an empty store, the run on the object at address 0 as cursor ends without a
  \<^verbatim>\<open>close\<close>.
\<close>

lemma findOne_callback_no_record:
  "w_trace (snd (run_closure ex_lib (FindOneCb (JRef 3)) [JNull, JRef 0]
      (ex_world\<lparr>w_engine := 0\<rparr>))) =
     [NativeCall (Cursor (JRef 0)) ''next'' [] (Inr (JBool False)),
      UserCall (JRef 3) [JNull, JNull]]"
  by code_simp



section \<open>Claim C10: save of nothing, save of a single document\<close>

text \<open>
  Claim C10. \<open>save\<close> with a \<^verbatim>\<open>null\<close> or \<^verbatim>\<open>undefined\<close> document argument returns a fresh
  empty array at once: the engine is not called, its state is untouched and nothing is
  thrown. A document argument \<open>d\<close> that is not an array is wrapped into a fresh
  one-element array, and the call then proceeds exactly as \<open>save\<close> of that one-element
  array: what \<open>save\<close> does is one call of the engine's \<^verbatim>\<open>save\<close>, whose second argument is
  the fresh array, on a heap where that array holds exactly \<open>d\<close> (with the completion
  function over the fresh array as last argument in callback mode); the engine state
  after \<open>save\<close> is the one that call left.
\<close>

theorem save_falsy_and_wrap:
  "(eq_null d \<longrightarrow>
      save lib (cname # d # rest) w =
        (Inr (JRef (length (w_heap w))), w\<lparr>w_heap := w_heap w @ [new_array []]\<rparr>)) \<and>
   (truthy d \<and> \<not> isArray (w_heap w) d \<longrightarrow>
      save lib (cname # d # rest) w =
        save lib (cname # JRef (length (w_heap w)) # rest)
          (w\<lparr>w_heap := w_heap w @ [new_array [d]]\<rparr>)) \<and>
   (truthy d \<and> \<not> isArray (w_heap w) d \<and>
    cb = (if typeof (w_heap w) (arg rest 0) = ''function'' then arg rest 0 else arg rest 1) \<and>
    or_else_new (if typeof (w_heap w) (arg rest 0) = ''function'' then JNull else arg rest 0)
      empty_object (w_heap w @ [new_array [d]]) = (opts', h2) \<and>
    nargs = [Val cname, Val (JRef (length (w_heap w))), Val opts'] @
            (if eq_null cb then [] else [Fn (SaveCb (JRef (length (w_heap w))) cb)]) \<longrightarrow>
      elems h2 (JRef (length (w_heap w))) = [d] \<and>
      w_trace (snd (save lib (cname # d # rest) w)) =
        w_trace w @
          [NativeCall Impl ''save'' nargs (fst (native lib Impl ''save'' nargs h2 (w_engine w)))] \<and>
      w_engine (snd (save lib (cname # d # rest) w)) =
        snd (snd (native lib Impl ''save'' nargs h2 (w_engine w))))"
proof (intro conjI impI)
  assume "eq_null d"
  then have "\<not> truthy d"
    by (cases d) simp_all
  then show "save lib (cname # d # rest) w =
        (Inr (JRef (length (w_heap w))), w\<lparr>w_heap := w_heap w @ [new_array []]\<rparr>)"
    by (simp add: save_def alloc_def Let_def arg_simps)
next
  assume d: "truthy d \<and> \<not> isArray (w_heap w) d"
  have arr: "isArray (w_heap w @ [new_array [d]]) (JRef (length (w_heap w)))"
    by (simp add: cell_def new_array_def)
  show "save lib (cname # d # rest) w =
        save lib (cname # JRef (length (w_heap w)) # rest)
          (w\<lparr>w_heap := w_heap w @ [new_array [d]]\<rparr>)"
    using d arr by (simp add: save_def alloc_def Let_def arg_simps split: prod.splits)
next
  let ?n = "length (w_heap w)"
  let ?h1 = "w_heap w @ [new_array [d]]"
  assume a: "truthy d \<and> \<not> isArray (w_heap w) d \<and>
    cb = (if typeof (w_heap w) (arg rest 0) = ''function'' then arg rest 0 else arg rest 1) \<and>
    or_else_new (if typeof (w_heap w) (arg rest 0) = ''function'' then JNull else arg rest 0)
      empty_object ?h1 = (opts', h2) \<and>
    nargs = [Val cname, Val (JRef ?n), Val opts'] @
            (if eq_null cb then [] else [Fn (SaveCb (JRef ?n) cb)])"
  have h2: "h2 = ?h1 \<or> h2 = ?h1 @ [empty_object]"
    using a by (auto simp: or_else_new_def alloc_def split: if_splits)
  then have e: "elems h2 (JRef ?n) = [d]"
    by (auto simp: elems_def cell_def new_array_def nth_append)
  obtain r h3 s3 where n:
    "native lib Impl ''save'' nargs (w_heap (w\<lparr>w_heap := h2\<rparr>)) (w_engine (w\<lparr>w_heap := h2\<rparr>)) =
       (r, h3, s3)"
    "call_native lib Impl ''save'' nargs (w\<lparr>w_heap := h2\<rparr>) =
       (r, \<lparr>w_heap = h3, w_engine = s3,
            w_trace = w_trace (w\<lparr>w_heap := h2\<rparr>) @ [NativeCall Impl ''save'' nargs r]\<rparr>)"
    by (rule call_native_run [of lib Impl "''save''" nargs "w\<lparr>w_heap := h2\<rparr>"])
  have s: "save lib (cname # d # rest) w =
             (if eq_null cb
              then bind (call_native lib Impl ''save'' nargs)
                     (\<lambda>oids. bind (lift_heap (postprocess (JRef ?n) oids))
                                (\<lambda>u. ret (JRef ?n))) (w\<lparr>w_heap := h2\<rparr>)
              else call_native lib Impl ''save'' nargs (w\<lparr>w_heap := h2\<rparr>))"
    using a by (simp add: save_def alloc_def Let_def arg_simps typeof_append_array)
  have t: "w_trace (snd (save lib (cname # d # rest) w)) =
             w_trace w @ [NativeCall Impl ''save'' nargs r] \<and>
           w_engine (snd (save lib (cname # d # rest) w)) = s3"
    unfolding s using n(2)
    by (cases r)
       (simp_all add: bind_def lift_heap_def ret_def case_prod_beta split: sum.splits)
  show "elems h2 (JRef ?n) = [d]"
    by (rule e)
  show "w_trace (snd (save lib (cname # d # rest) w)) =
        w_trace w @
          [NativeCall Impl ''save'' nargs (fst (native lib Impl ''save'' nargs h2 (w_engine w)))]"
    using t n(1) by simp
  show "w_engine (snd (save lib (cname # d # rest) w)) =
        snd (snd (native lib Impl ''save'' nargs h2 (w_engine w)))"
    using t n(1) by simp
qed

theorem save_falsy_and_wrap_witness:
  "eq_null JNull \<and>
   save ex_lib [JStr ''users'', JNull] ex_world =
     (Inr (JRef 5), ex_world\<lparr>w_heap := ex_heap @ [new_array []]\<rparr>) \<and>
   truthy (JRef 0) \<and> \<not> isArray (w_heap ex_world) (JRef 0) \<and>
   save ex_lib [JStr ''users'', JRef 0] ex_world =
     save ex_lib [JStr ''users'', JRef 5]
       (ex_world\<lparr>w_heap := ex_heap @ [new_array [JRef 0]]\<rparr>) \<and>
   or_else_new JUndefined empty_object (w_heap ex_world @ [new_array [JRef 0]]) =
     (JRef 6, ex_heap @ [new_array [JRef 0], empty_object]) \<and>
   elems (ex_heap @ [new_array [JRef 0], empty_object]) (JRef 5) = [JRef 0] \<and>
   w_trace (snd (save ex_lib [JStr ''users'', JRef 0] ex_world)) =
     [NativeCall Impl ''save'' [Val (JStr ''users''), Val (JRef 5), Val (JRef 6)]
        (Inr (JRef 7))] \<and>
   w_engine (snd (save ex_lib [JStr ''users'', JRef 0] ex_world)) = 2 \<and>
   w_trace (snd (save ex_lib [JStr ''users'', JRef 0, JRef 3] ex_world)) =
     [NativeCall Impl ''save''
        [Val (JStr ''users''), Val (JRef 5), Val (JRef 6), Fn (SaveCb (JRef 5) (JRef 3))]
        (Inr (JRef 7))]"
proof -
  let ?h2 = "ex_heap @ [new_array [JRef 0], empty_object]"
  have a: "truthy (JRef 0)" "\<not> isArray (w_heap ex_world) (JRef 0)" "eq_null JNull"
    "length (w_heap ex_world) = 5" "w_trace ex_world = []" "w_heap ex_world = ex_heap"
    by code_simp+
  have o: "or_else_new JUndefined empty_object (w_heap ex_world @ [new_array [JRef 0]]) =
             (JRef 6, ?h2)"
    by code_simp
  have o3: "or_else_new JNull empty_object (w_heap ex_world @ [new_array [JRef 0]]) =
             (JRef 6, ?h2)"
    by code_simp
  have c: "typeof (w_heap ex_world) (arg [] 0) \<noteq> ''function''" "arg [] 0 = JUndefined"
    "arg [] 1 = JUndefined" "eq_null JUndefined"
    "typeof (w_heap ex_world) (arg [JRef 3] 0) = ''function''" "arg [JRef 3] 0 = JRef 3"
    "\<not> eq_null (JRef 3)"
    by code_simp+
  have n: "native ex_lib Impl ''save'' [Val (JStr ''users''), Val (JRef 5), Val (JRef 6)]
             ?h2 (w_engine ex_world) = (Inr (JRef 7), ?h2 @ [new_array [ex_oid 0]], 2)"
    "native ex_lib Impl ''save''
       [Val (JStr ''users''), Val (JRef 5), Val (JRef 6), Fn (SaveCb (JRef 5) (JRef 3))]
       ?h2 (w_engine ex_world) = (Inr (JRef 7), ?h2 @ [new_array [ex_oid 0]], 2)"
    by code_simp+
  note t1 = save_falsy_and_wrap [of JNull ex_lib "JStr ''users''" "[]" ex_world]
  note t2 = save_falsy_and_wrap [of "JRef 0" ex_lib "JStr ''users''" "[]" ex_world JUndefined
      "JRef 6" ?h2 "[Val (JStr ''users''), Val (JRef 5), Val (JRef 6)]"]
  note t3 = save_falsy_and_wrap [of "JRef 0" ex_lib "JStr ''users''" "[JRef 3]" ex_world "JRef 3"
      "JRef 6" ?h2
      "[Val (JStr ''users''), Val (JRef 5), Val (JRef 6), Fn (SaveCb (JRef 5) (JRef 3))]"]
  have r1: "save ex_lib [JStr ''users'', JNull] ex_world =
     (Inr (JRef 5), ex_world\<lparr>w_heap := ex_heap @ [new_array []]\<rparr>)"
    using t1 a by simp
  have r2: "save ex_lib [JStr ''users'', JRef 0] ex_world =
     save ex_lib [JStr ''users'', JRef 5]
       (ex_world\<lparr>w_heap := ex_heap @ [new_array [JRef 0]]\<rparr>)"
    using t2 [THEN conjunct2, THEN conjunct1] a by simp
  have r3: "elems ?h2 (JRef 5) = [JRef 0] \<and>
     w_trace (snd (save ex_lib [JStr ''users'', JRef 0] ex_world)) =
       [NativeCall Impl ''save'' [Val (JStr ''users''), Val (JRef 5), Val (JRef 6)]
          (Inr (JRef 7))] \<and>
     w_engine (snd (save ex_lib [JStr ''users'', JRef 0] ex_world)) = 2"
    using t2 [THEN conjunct2, THEN conjunct2] a c o n by simp
  have r4: "w_trace (snd (save ex_lib [JStr ''users'', JRef 0, JRef 3] ex_world)) =
     [NativeCall Impl ''save''
        [Val (JStr ''users''), Val (JRef 5), Val (JRef 6), Fn (SaveCb (JRef 5) (JRef 3))]
        (Inr (JRef 7))]"
    using t3 [THEN conjunct2, THEN conjunct2] a c o3 n by simp
  show ?thesis
    using a o r1 r2 r3 r4 by simp
qed

end
